theory Spec2Isabelle
  imports Main
begin

section \<open>Strings of the page: \<open>trim\<close>, \<open>split\<close>, \<open>toLowerCase\<close>\<close>

text \<open>
  The page \<open>src/pages/Home.tsx\<close> works on JavaScript strings, which are sequences of
  UTF-16 code units. A \<^typ>\<open>string\<close> here is a list of 8-bit characters, read as the
  code units \<open>0 .. 255\<close> (ASCII and Latin-1). The three built-in string methods that
  \<open>generateDomains\<close> calls are written out for exactly this range, following ECMAScript:
  code units above 255 (other Unicode white space, other cased letters) do not occur in
  a \<^typ>\<open>string\<close> and are outside this development.
\<close>

definition isWhiteSpace :: "char \<Rightarrow> bool" where
  \<comment> \<open>\<open>WhiteSpace\<close> and \<open>LineTerminator\<close> of ECMAScript below 256:
      TAB, LF, VT, FF, CR, SP, NBSP. These are what \<open>String.prototype.trim\<close> strips.\<close>
  "isWhiteSpace c = ((of_char c :: nat) \<in> {9, 10, 11, 12, 13, 32, 160})"

definition trim :: "string \<Rightarrow> string" where
  \<comment> \<open>\<open>String.prototype.trim\<close>: strip white space at both ends.\<close>
  "trim s = rev (dropWhile isWhiteSpace (rev (dropWhile isWhiteSpace s)))"

fun split_str :: "char \<Rightarrow> string \<Rightarrow> string list" where
  \<comment> \<open>\<open>s.split(sep)\<close> for a one-character separator: the pieces between the
      occurrences of \<open>sep\<close>; the empty string gives one empty piece.\<close>
  "split_str sep [] = [[]]"
| "split_str sep (c # cs) =
     (if c = sep then [] # split_str sep cs
      else (case split_str sep cs of
              [] \<Rightarrow> [[c]]
            | l # ls \<Rightarrow> (c # l) # ls))"

fun join_str :: "char \<Rightarrow> string list \<Rightarrow> string" where
  \<comment> \<open>\<open>pieces.join(sep)\<close>, the inverse of \<^const>\<open>split_str\<close>; used only to state that
      splitting loses nothing.\<close>
  "join_str sep [] = []"
| "join_str sep [l] = l"
| "join_str sep (l # ls) = l @ sep # join_str sep ls"

definition isUpperCase :: "char \<Rightarrow> bool" where
  \<comment> \<open>The code units below 256 that \<open>toLowerCase\<close> changes: \<open>A .. Z\<close> and the
      Latin-1 capitals \<open>0xC0 .. 0xDE\<close> without the multiplication sign \<open>0xD7\<close>.\<close>
  "isUpperCase c =
     (let n = (of_char c :: nat)
      in (65 \<le> n \<and> n \<le> 90) \<or> (192 \<le> n \<and> n \<le> 222 \<and> n \<noteq> 215))"

definition toLowerCase_char :: "char \<Rightarrow> char" where
  "toLowerCase_char c = (if isUpperCase c then char_of ((of_char c :: nat) + 32) else c)"

definition toLowerCase :: "string \<Rightarrow> string" where
  \<comment> \<open>\<open>String.prototype.toLowerCase\<close>, which below 256 works code unit by code unit.\<close>
  "toLowerCase s = map toLowerCase_char s"

section \<open>State of the \<open>Home\<close> component\<close>

record DomainSuggestion =
  name :: string
  extensions :: "string list"

record state =
  description :: string
  domains :: "DomainSuggestion list"
  loading :: bool
  error :: "string option"

text \<open>
  What a \<open>catch\<close> clause can receive: an \<open>Error\<close> object with its \<open>message\<close>, or any
  other thrown value (\<open>err instanceof Error\<close> is false).
\<close>

datatype thrown = Error string | NotAnError

text \<open>
  The imported \<open>genAI\<close> is either \<open>null\<close> (\<^const>\<open>None\<close>: no API key) or a client.
  Of the client only \<open>generateContent(prompt)\<close> followed by \<open>response.text()\<close> matters:
  it yields the response text, or it throws. \<open>getGenerativeModel\<close> only builds the handle
  on which \<open>generateContent\<close> is called and is taken not to throw.
\<close>

type_synonym client = "string \<Rightarrow> thrown + string"

definition initial_state :: state where
  \<comment> \<open>The four \<open>useState\<close> initial values.\<close>
  "initial_state = \<lparr>description = [], domains = [], loading = False, error = None\<rparr>"

definition prompt_of :: "string \<Rightarrow> string" where
  "prompt_of d =
     ''Generate 5 creative, memorable, and brandable website domain names based on this description: ''
     @ d @
     ''. Consider SEO, memorability, and brand potential. Each name should be short, catchy, and unique. For each name, suggest multiple domain extensions (.com, .io, .co, .net, .org, .ai). Return only the domain names without extensions, one per line, without any additional text or explanations.''"

definition try_body :: "client option \<Rightarrow> string \<Rightarrow> (thrown + DomainSuggestion list) \<times> string list" where
  \<comment> \<open>The \<open>try\<close> block of \<open>generateDomains\<close>: the value thrown (\<^const>\<open>Inl\<close>) or the
      suggestions handed to \<open>setDomains\<close> (\<^const>\<open>Inr\<close>), together with the prompts sent
      to the backend, one per \<open>generateContent\<close> call.\<close>
  "try_body genAI desc =
     (case genAI of
        None \<Rightarrow>
          (Inl (Error ''API key not configured. Please add your Gemini API key to continue.''), [])
      | Some generateContent \<Rightarrow>
          let prompt = prompt_of desc in
          (case generateContent prompt of
             Inl err \<Rightarrow> (Inl err, [prompt])
           | Inr text \<Rightarrow>
               let nameList = filter (\<lambda>name. trim name \<noteq> []) (split_str (CHR 0x0A) text);
                   domainSuggestions =
                     map (\<lambda>name. \<lparr>name = toLowerCase name,
                                   extensions = [''.com'', ''.io'', ''.co'', ''.net'', ''.org'', ''.ai'']\<rparr>)
                         nameList
               in (Inr domainSuggestions, [prompt])))"

definition generateDomains :: "client option \<Rightarrow> state \<Rightarrow> state \<times> string list" where
  \<comment> \<open>The component state once the handler has settled, and the prompts it sent.
      A non-empty string is truthy, so \<open>!description.trim()\<close> is \<open>trim \<dots> = []\<close>.\<close>
  "generateDomains genAI s =
     (if trim (description s) = [] then (s, [])
      else
        let s1 = s\<lparr>loading := True, error := None\<rparr>;
            (result, calls) = try_body genAI (description s);
            s2 = (case result of
                    Inr domainSuggestions \<Rightarrow> s1\<lparr>domains := domainSuggestions\<rparr>
                  | Inl err \<Rightarrow>
                      s1\<lparr>error := Some (case err of
                                         Error message \<Rightarrow> message
                                       | NotAnError \<Rightarrow>
                                           ''An error occurred while generating domain names''),
                         domains := []\<rparr>)
        in (s2\<lparr>loading := False\<rparr>, calls))"

definition getGoDaddyUrl :: "string \<Rightarrow> string \<Rightarrow> string" where
  "getGoDaddyUrl domain extension =
     ''https://www.godaddy.com/domainsearch/find?domainToCheck='' @ domain @ extension"

section \<open>Stand-ins for the backend\<close>

text \<open>
  The backend is an injected dependency of \<^const>\<open>generateDomains\<close>. Two fixed clients
  are enough for the scenarios: one whose call returns a given text, one whose call
  throws a given value.
\<close>

definition client_returning :: "string \<Rightarrow> client" where
  "client_returning text prompt = Inr text"

definition client_throwing :: "thrown \<Rightarrow> client" where
  "client_throwing err prompt = Inl err"

section \<open>The registrar link as the spec words it\<close>

text \<open>
  The spec describes the link as a template whose single query parameter carries the
  percent-escaped concatenation of name and extension. The following definitions follow
  those words, to be compared with \<^const>\<open>getGoDaddyUrl\<close>: the unreserved characters
  of a URL (letters, digits, \<open>-\<close>, \<open>.\<close>, \<open>_\<close>, \<open>~\<close>) stand for themselves, every other
  code unit below 256 is written \<open>%XX\<close> with two upper-case hexadecimal digits.
\<close>

definition spec_unreserved :: "char \<Rightarrow> bool" where
  "spec_unreserved c =
     (let n = (of_char c :: nat)
      in (65 \<le> n \<and> n \<le> 90) \<or> (97 \<le> n \<and> n \<le> 122) \<or> (48 \<le> n \<and> n \<le> 57)
         \<or> n = 45 \<or> n = 46 \<or> n = 95 \<or> n = 126)"

definition hex_digit :: "nat \<Rightarrow> char" where
  "hex_digit n = (if n < 10 then char_of (48 + n) else char_of (55 + n))"

definition spec_percent_escape :: "string \<Rightarrow> string" where
  "spec_percent_escape s =
     concat (map (\<lambda>c. if spec_unreserved c then [c]
                       else [CHR ''%'', hex_digit ((of_char c :: nat) div 16),
                             hex_digit ((of_char c :: nat) mod 16)]) s)"

definition spec_url :: "string \<Rightarrow> string \<Rightarrow> string" where
  "spec_url domain extension =
     ''https://www.godaddy.com/domainsearch/find?domainToCheck=''
     @ spec_percent_escape (domain @ extension)"

definition spec_query_params :: "string \<Rightarrow> (string \<times> string) list" where
  \<comment> \<open>How a URL's query is read: what follows the first \<open>?\<close> is cut at every \<open>&\<close>,
      and each piece at its first \<open>=\<close> into key and value.\<close>
  "spec_query_params url =
     map (\<lambda>p. (takeWhile (\<lambda>c. c \<noteq> CHR ''='') p, drop 1 (dropWhile (\<lambda>c. c \<noteq> CHR ''='') p)))
         (split_str (CHR ''&'') (drop 1 (dropWhile (\<lambda>c. c \<noteq> CHR ''?'') url)))"

section \<open>Facts about the string functions\<close>

lemma trim_eq_Nil_iff: "trim s = [] \<longleftrightarrow> (\<forall>c\<in>set s. isWhiteSpace c)"
proof
  assume "trim s = []"
  then have "\<forall>c\<in>set (dropWhile isWhiteSpace s). isWhiteSpace c"
    by (simp add: trim_def)
  then have "dropWhile isWhiteSpace s = []"
    using hd_dropWhile [of isWhiteSpace s] hd_in_set [of "dropWhile isWhiteSpace s"] by blast
  then show "\<forall>c\<in>set s. isWhiteSpace c"
    by simp
next
  assume "\<forall>c\<in>set s. isWhiteSpace c"
  then have d: "dropWhile isWhiteSpace s = []"
    by simp
  show "trim s = []"
    unfolding trim_def d by simp
qed

lemma trim_neq_Nil_iff: "trim s \<noteq> [] \<longleftrightarrow> (\<exists>c\<in>set s. \<not> isWhiteSpace c)"
  by (simp add: trim_eq_Nil_iff)

lemma split_str_not_Nil: "split_str sep s \<noteq> []"
  by (induction s) (auto split: list.splits)

lemma split_str_no_sep: "l \<in> set (split_str sep s) \<Longrightarrow> sep \<notin> set l"
  by (induction s arbitrary: l) (auto split: if_splits list.splits)

lemma split_str_whole: "sep \<notin> set s \<Longrightarrow> split_str sep s = [s]"
  by (induction s) auto

lemma join_split_str: "join_str sep (split_str sep s) = s"
proof (induction s)
  case Nil
  show ?case by simp
next
  case (Cons c cs)
  then show ?case
    using split_str_not_Nil [of sep cs]
    by (cases "split_str sep cs"; cases "tl (split_str sep cs)") auto
qed

lemma of_char_toLowerCase_char:
  "(of_char (toLowerCase_char c) :: nat) = (if isUpperCase c then of_char c + 32 else of_char c)"
  by (auto simp: toLowerCase_char_def isUpperCase_def Let_def)

lemma toLowerCase_char_not_upper: "\<not> isUpperCase (toLowerCase_char c)"
  unfolding isUpperCase_def Let_def of_char_toLowerCase_char
  by (auto simp: isUpperCase_def Let_def)

lemma toLowerCase_char_idem: "toLowerCase_char (toLowerCase_char c) = toLowerCase_char c"
  using toLowerCase_char_not_upper [of c] by (simp add: toLowerCase_char_def)

lemma isWhiteSpace_toLowerCase_char: "isWhiteSpace (toLowerCase_char c) = isWhiteSpace c"
  unfolding isWhiteSpace_def of_char_toLowerCase_char
  by (auto simp: isUpperCase_def Let_def)

lemma toLowerCase_char_whitespace: "isWhiteSpace c \<Longrightarrow> toLowerCase_char c = c"
  by (auto simp: toLowerCase_char_def isWhiteSpace_def isUpperCase_def Let_def)

lemma length_toLowerCase: "length (toLowerCase s) = length s"
  by (simp add: toLowerCase_def)

lemma toLowerCase_idem: "toLowerCase (toLowerCase s) = toLowerCase s"
  by (simp add: toLowerCase_def toLowerCase_char_idem)

lemma toLowerCase_fixed: "\<forall>c\<in>set s. \<not> isUpperCase c \<Longrightarrow> toLowerCase s = s"
  by (induction s) (simp_all add: toLowerCase_def toLowerCase_char_def)

lemma trim_toLowerCase: "trim (toLowerCase s) = toLowerCase (trim s)"
  by (simp add: trim_def toLowerCase_def dropWhile_map rev_map comp_def
      isWhiteSpace_toLowerCase_char)

lemma split_str_subset: "l \<in> set (split_str sep s) \<Longrightarrow> set l \<subseteq> set s"
proof (induction s arbitrary: l)
  case Nil
  then show ?case by simp
next
  case (Cons c cs)
  show ?case
  proof (cases "c = sep")
    case True
    with Cons show ?thesis by auto
  next
    case False
    obtain h t where ht: "split_str sep cs = h # t"
      using split_str_not_Nil [of sep cs] by (cases "split_str sep cs") auto
    with False Cons.prems have "l = c # h \<or> l \<in> set t"
      by simp
    moreover have "set h \<subseteq> set cs" and "\<And>x. x \<in> set t \<Longrightarrow> set x \<subseteq> set cs"
      using Cons.IH ht by simp_all
    ultimately show ?thesis
      by auto
  qed
qed

lemma dropWhile_same_length: "length (dropWhile P xs) = length xs \<Longrightarrow> dropWhile P xs = xs"
  using length_dropWhile_le [of P "tl xs"] by (cases xs) (auto split: if_splits)

text \<open>A string that \<^const>\<open>trim\<close> changes gets shorter.\<close>

lemma trim_same_length:
  assumes "length (trim s) = length s"
  shows "trim s = s"
proof -
  have a: "length (trim s) \<le> length (dropWhile isWhiteSpace s)"
    using length_dropWhile_le [of isWhiteSpace "rev (dropWhile isWhiteSpace s)"]
    by (simp add: trim_def)
  have b: "length (dropWhile isWhiteSpace s) \<le> length s"
    by (rule length_dropWhile_le)
  from a b assms have d: "dropWhile isWhiteSpace s = s"
    by (intro dropWhile_same_length) simp
  with assms have "length (dropWhile isWhiteSpace (rev s)) = length (rev s)"
    by (simp add: trim_def)
  then have "dropWhile isWhiteSpace (rev s) = rev s"
    by (rule dropWhile_same_length)
  with d show ?thesis
    by (simp add: trim_def)
qed

section \<open>Facts about the registrar link\<close>

lemma spec_percent_escape_unreserved:
  "\<forall>c\<in>set s. spec_unreserved c \<Longrightarrow> spec_percent_escape s = s"
  by (induction s) (simp_all add: spec_percent_escape_def)

lemma spec_unreserved_not_delimiter:
  "spec_unreserved c \<Longrightarrow> c \<noteq> CHR ''&'' \<and> c \<noteq> CHR ''='' \<and> c \<noteq> CHR ''?''"
  by (auto simp: spec_unreserved_def)

lemma spec_query_params_getGoDaddyUrl:
  assumes "CHR ''&'' \<notin> set (domain @ extension)"
  shows "spec_query_params (getGoDaddyUrl domain extension) = [(''domainToCheck'', domain @ extension)]"
proof -
  have "CHR ''&'' \<notin> set (''domainToCheck='' @ domain @ extension)"
    using assms by simp
  then have "split_str (CHR ''&'') (''domainToCheck='' @ domain @ extension)
               = [''domainToCheck='' @ domain @ extension]"
    by (rule split_str_whole)
  then show ?thesis
    by (simp add: spec_query_params_def getGoDaddyUrl_def)
qed

section \<open>Facts about the handler\<close>

lemma try_body_response:
  "generateContent (prompt_of d) = Inr text \<Longrightarrow>
   try_body (Some generateContent) d =
     (Inr (map (\<lambda>line. \<lparr>name = toLowerCase line,
                          extensions = [''.com'', ''.io'', ''.co'', ''.net'', ''.org'', ''.ai'']\<rparr>)
               (filter (\<lambda>line. \<exists>c\<in>set line. \<not> isWhiteSpace c) (split_str (CHR 0x0A) text))),
      [prompt_of d])"
  by (simp add: try_body_def Let_def trim_neq_Nil_iff)

lemma generateDomains_response:
  assumes "\<exists>c\<in>set (description s). \<not> isWhiteSpace c"
    and "generateContent (prompt_of (description s)) = Inr text"
  shows "generateDomains (Some generateContent) s =
           (s\<lparr>error := None, loading := False,
              domains := map (\<lambda>line. \<lparr>name = toLowerCase line,
                                       extensions = [''.com'', ''.io'', ''.co'', ''.net'', ''.org'', ''.ai'']\<rparr>)
                           (filter (\<lambda>line. \<exists>c\<in>set line. \<not> isWhiteSpace c)
                                   (split_str (CHR 0x0A) text))\<rparr>,
            [prompt_of (description s)])"
proof -
  have "trim (description s) \<noteq> []"
    using assms(1) by (simp add: trim_neq_Nil_iff)
  then show ?thesis
    using try_body_response [of generateContent "description s" "text"] assms(2)
    by (simp add: generateDomains_def)
qed

lemma generateDomains_failure:
  assumes "\<exists>c\<in>set (description s). \<not> isWhiteSpace c"
    and "fst (try_body genAI (description s)) = Inl err"
  shows "fst (generateDomains genAI s) =
           s\<lparr>loading := False,
              error := Some (case err of
                              Error message \<Rightarrow> message
                            | NotAnError \<Rightarrow> ''An error occurred while generating domain names''),
              domains := []\<rparr>"
proof -
  have "trim (description s) \<noteq> []"
    using assms(1) by (simp add: trim_neq_Nil_iff)
  then show ?thesis
    using assms(2) by (cases "try_body genAI (description s)") (simp add: generateDomains_def)
qed

text \<open>The attempt fails exactly when there is no client or the client's call throws.\<close>

lemma try_body_failure_iff:
  "fst (try_body genAI d) = Inl err \<longleftrightarrow>
     (genAI = None \<and> err = Error ''API key not configured. Please add your Gemini API key to continue.'')
     \<or> (\<exists>generateContent. genAI = Some generateContent \<and> generateContent (prompt_of d) = Inl err)"
  by (auto simp: try_body_def Let_def split: option.splits sum.splits)

section \<open>The response transformation\<close>

text \<open>
  Claim C1. When generation is triggered with a description that is not blank and the
  backend answers with a text, the names of the resulting suggestion list depend on
  that text alone: the text is cut at every line feed, the lines without any
  non-white-space character are dropped, and the names are the remaining lines, in
  their order, each lower-cased as a whole and otherwise untouched; no error message
  is set.
\<close>

theorem response_transformation:
  assumes "\<exists>c\<in>set (description s). \<not> isWhiteSpace c"
    and "generateContent (prompt_of (description s)) = Inr text"
  shows "map name (domains (fst (generateDomains (Some generateContent) s))) =
           map toLowerCase
             (filter (\<lambda>line. \<exists>c\<in>set line. \<not> isWhiteSpace c) (split_str (CHR 0x0A) text))
         \<and> error (fst (generateDomains (Some generateContent) s)) = None"
  using generateDomains_response [of s generateContent "text"] assms by (simp add: comp_def)

text \<open>
  The scenario of the spec: the description \<open>a bakery in Paris\<close> and a backend that
  returns three names and one blank line.
\<close>

theorem response_transformation_scenario:
  "(\<exists>c\<in>set (description (initial_state\<lparr>description := ''a bakery in Paris''\<rparr>)). \<not> isWhiteSpace c)
   \<and> map name (domains (fst (generateDomains
        (Some (client_returning ''CroissantCo\<newline>ParisCrumb\<newline>\<newline>LeBonPain''))
        (initial_state\<lparr>description := ''a bakery in Paris''\<rparr>))))
     = [''croissantco'', ''pariscrumb'', ''lebonpain'']
   \<and> error (fst (generateDomains
        (Some (client_returning ''CroissantCo\<newline>ParisCrumb\<newline>\<newline>LeBonPain''))
        (initial_state\<lparr>description := ''a bakery in Paris''\<rparr>)))
     = None"
proof -
  have d: "\<exists>c\<in>set (description (initial_state\<lparr>description := ''a bakery in Paris''\<rparr>)).
             \<not> isWhiteSpace c"
    by (simp add: isWhiteSpace_def)
  have r: "client_returning ''CroissantCo\<newline>ParisCrumb\<newline>\<newline>LeBonPain''
             (prompt_of (description (initial_state\<lparr>description := ''a bakery in Paris''\<rparr>)))
           = Inr ''CroissantCo\<newline>ParisCrumb\<newline>\<newline>LeBonPain''"
    by (simp add: client_returning_def)
  show ?thesis
    using d r response_transformation
      [of "initial_state\<lparr>description := ''a bakery in Paris''\<rparr>"
          "client_returning ''CroissantCo\<newline>ParisCrumb\<newline>\<newline>LeBonPain''"
          "''CroissantCo\<newline>ParisCrumb\<newline>\<newline>LeBonPain''"]
    by (simp add: isWhiteSpace_def toLowerCase_def toLowerCase_char_def isUpperCase_def
        char_of_def bit_Suc_0_iff)
qed

text \<open>
  Claim C2. For a description that is not blank and a response with \<open>N\<close> lines that
  contain a non-white-space character, the suggestion list has exactly \<open>N\<close> entries
  and every entry carries the same six extensions \<open>.com .io .co .net .org .ai\<close> in
  this order, whatever the response says.
\<close>

theorem suggestion_count_and_extensions:
  assumes "\<exists>c\<in>set (description s). \<not> isWhiteSpace c"
    and "generateContent (prompt_of (description s)) = Inr text"
    and "length (filter (\<lambda>line. \<exists>c\<in>set line. \<not> isWhiteSpace c) (split_str (CHR 0x0A) text)) = N"
  shows "length (domains (fst (generateDomains (Some generateContent) s))) = N
         \<and> map extensions (domains (fst (generateDomains (Some generateContent) s))) =
             replicate N [''.com'', ''.io'', ''.co'', ''.net'', ''.org'', ''.ai'']"
  using generateDomains_response [of s generateContent "text"] assms
  by (simp add: comp_def map_replicate_const)

text \<open>A response of five lines, two of them blank, gives three entries.\<close>

theorem suggestion_count_and_extensions_scenario:
  "length (filter (\<lambda>line. \<exists>c\<in>set line. \<not> isWhiteSpace c)
      (split_str (CHR 0x0A) ''Alpha\<newline>  \<newline>Beta\<newline>\<newline>Gamma'')) = 3
   \<and> length (domains (fst (generateDomains
      (Some (client_returning ''Alpha\<newline>  \<newline>Beta\<newline>\<newline>Gamma''))
      (initial_state\<lparr>description := ''shop''\<rparr>)))) = 3
   \<and> map extensions (domains (fst (generateDomains
      (Some (client_returning ''Alpha\<newline>  \<newline>Beta\<newline>\<newline>Gamma''))
      (initial_state\<lparr>description := ''shop''\<rparr>))))
     = [[''.com'', ''.io'', ''.co'', ''.net'', ''.org'', ''.ai''],
        [''.com'', ''.io'', ''.co'', ''.net'', ''.org'', ''.ai''],
        [''.com'', ''.io'', ''.co'', ''.net'', ''.org'', ''.ai'']]"
proof -
  have d: "\<exists>c\<in>set (description (initial_state\<lparr>description := ''shop''\<rparr>)). \<not> isWhiteSpace c"
    by (simp add: isWhiteSpace_def)
  have r: "client_returning ''Alpha\<newline>  \<newline>Beta\<newline>\<newline>Gamma''
             (prompt_of (description (initial_state\<lparr>description := ''shop''\<rparr>)))
           = Inr ''Alpha\<newline>  \<newline>Beta\<newline>\<newline>Gamma''"
    by (simp add: client_returning_def)
  have n: "length (filter (\<lambda>line. \<exists>c\<in>set line. \<not> isWhiteSpace c)
             (split_str (CHR 0x0A) ''Alpha\<newline>  \<newline>Beta\<newline>\<newline>Gamma'')) = 3"
    by (simp add: isWhiteSpace_def)
  show ?thesis
    using n suggestion_count_and_extensions
      [of "initial_state\<lparr>description := ''shop''\<rparr>"
          "client_returning ''Alpha\<newline>  \<newline>Beta\<newline>\<newline>Gamma''"
          "''Alpha\<newline>  \<newline>Beta\<newline>\<newline>Gamma''" 3, OF d r n]
    by (simp add: numeral_3_eq_3)
qed

section \<open>The registrar link\<close>

text \<open>
  Claim C3, as the spec states it, fails: \<^const>\<open>getGoDaddyUrl\<close> escapes nothing. For
  the name \<open>a&b=c\<close> the link carries \<open>&\<close> and \<open>=\<close> as they are, where the escaped form
  has \<open>%26\<close> and \<open>%3D\<close>, and its query reads as two parameters, \<open>domainToCheck=a\<close> and
  \<open>b=c.com\<close>.
\<close>

theorem url_not_escaped:
  "getGoDaddyUrl ''a&b=c'' ''.com'' =
     ''https://www.godaddy.com/domainsearch/find?domainToCheck=a&b=c.com''
   \<and> spec_url ''a&b=c'' ''.com'' =
     ''https://www.godaddy.com/domainsearch/find?domainToCheck=a%26b%3Dc.com''
   \<and> spec_query_params (getGoDaddyUrl ''a&b=c'' ''.com'') =
     [(''domainToCheck'', ''a''), (''b'', ''c.com'')]"
  by (simp add: getGoDaddyUrl_def spec_url_def spec_percent_escape_def spec_unreserved_def
      hex_digit_def spec_query_params_def char_of_def bit_Suc_0_iff)

text \<open>
  Claim C3, amended. For every name and extension the link is the fixed prefix
  \<open>https://www.godaddy.com/domainsearch/find?domainToCheck=\<close> followed by the name and
  the extension exactly as given, with nothing escaped. When name and extension consist
  of unreserved characters only, this is the percent-escaped form, and the query has
  the one parameter \<open>domainToCheck\<close> with the value name+extension.
\<close>

theorem url_verbatim:
  "getGoDaddyUrl domain extension =
     ''https://www.godaddy.com/domainsearch/find?domainToCheck='' @ domain @ extension
   \<and> ((\<forall>c\<in>set (domain @ extension). spec_unreserved c) \<longrightarrow>
        getGoDaddyUrl domain extension = spec_url domain extension
        \<and> spec_query_params (getGoDaddyUrl domain extension) = [(''domainToCheck'', domain @ extension)])"
proof (intro conjI impI)
  show "getGoDaddyUrl domain extension =
     ''https://www.godaddy.com/domainsearch/find?domainToCheck='' @ domain @ extension"
    by (simp add: getGoDaddyUrl_def)
next
  assume u: "\<forall>c\<in>set (domain @ extension). spec_unreserved c"
  then show "getGoDaddyUrl domain extension = spec_url domain extension"
    by (simp only: getGoDaddyUrl_def spec_url_def spec_percent_escape_unreserved)
  have "CHR ''&'' \<notin> set (domain @ extension)"
    using u spec_unreserved_not_delimiter by blast
  then show "spec_query_params (getGoDaddyUrl domain extension) = [(''domainToCheck'', domain @ extension)]"
    by (rule spec_query_params_getGoDaddyUrl)
qed

theorem url_verbatim_scenario:
  "list_all spec_unreserved (''croissantco'' @ ''.com'')
   \<and> getGoDaddyUrl ''croissantco'' ''.com'' =
       ''https://www.godaddy.com/domainsearch/find?domainToCheck=croissantco.com''
   \<and> spec_url ''croissantco'' ''.com'' =
       ''https://www.godaddy.com/domainsearch/find?domainToCheck=croissantco.com''
   \<and> spec_query_params (getGoDaddyUrl ''croissantco'' ''.com'') = [(''domainToCheck'', ''croissantco.com'')]"
proof -
  have u: "\<forall>c\<in>set (''croissantco'' @ ''.com''). spec_unreserved c"
    by (simp add: spec_unreserved_def)
  note t = url_verbatim [of "''croissantco''" "''.com''"]
  have g: "getGoDaddyUrl ''croissantco'' ''.com'' =
       ''https://www.godaddy.com/domainsearch/find?domainToCheck=croissantco.com''"
    using t by simp
  have "getGoDaddyUrl ''croissantco'' ''.com'' = spec_url ''croissantco'' ''.com''"
    and "spec_query_params (getGoDaddyUrl ''croissantco'' ''.com'') =
           [(''domainToCheck'', ''croissantco'' @ ''.com'')]"
    using t u by blast+
  then show ?thesis
    using u g by (simp add: list_all_iff)
qed

section \<open>Failure of the attempt\<close>

text \<open>
  Claim C4, as the spec states it, fails where the thrown value is an \<open>Error\<close> whose
  message is empty: the handler stores that empty message and does not fall back to
  the generic one.
\<close>

theorem empty_message_failure:
  "error (fst (generateDomains (Some (client_throwing (Error [])))
                 (initial_state\<lparr>description := ''shop''\<rparr>))) = Some []"
  by (simp add: generateDomains_def try_body_def client_throwing_def initial_state_def
      trim_def isWhiteSpace_def)

text \<open>
  Claim C4, amended. When an attempt with a description that is not blank fails, because
  no client is configured or because the client's call throws, the suggestion list is
  empty afterwards, whatever it held before, and the error message is the message of
  the thrown \<open>Error\<close>, or the generic message when the thrown value is not an \<open>Error\<close>.
  The message is non-empty unless the thrown \<open>Error\<close> has an empty message.
\<close>

theorem failure_resets_suggestions:
  assumes "\<exists>c\<in>set (description s). \<not> isWhiteSpace c"
    and "(genAI = None
           \<and> err = Error ''API key not configured. Please add your Gemini API key to continue.'')
         \<or> (\<exists>generateContent. genAI = Some generateContent
               \<and> generateContent (prompt_of (description s)) = Inl err)"
  shows "domains (fst (generateDomains genAI s)) = []
         \<and> error (fst (generateDomains genAI s)) =
             Some (case err of
                     Error message \<Rightarrow> message
                   | NotAnError \<Rightarrow> ''An error occurred while generating domain names'')
         \<and> (err \<noteq> Error [] \<longrightarrow> error (fst (generateDomains genAI s)) \<noteq> Some [])"
proof -
  have "fst (try_body genAI (description s)) = Inl err"
    using assms(2) by (simp only: try_body_failure_iff)
  then show ?thesis
    using generateDomains_failure [OF assms(1)] by (cases err) simp_all
qed

text \<open>
  A network timeout after an earlier successful generation, and a thrown value that is
  not an \<open>Error\<close>.
\<close>

theorem failure_resets_suggestions_scenario:
  "domains (fst (generateDomains (Some (client_throwing (Error ''Network timeout'')))
      \<lparr>description = ''shop'', domains = [\<lparr>name = ''old'', extensions = [''.com'']\<rparr>],
       loading = False, error = None\<rparr>)) = []
   \<and> error (fst (generateDomains (Some (client_throwing (Error ''Network timeout'')))
      \<lparr>description = ''shop'', domains = [\<lparr>name = ''old'', extensions = [''.com'']\<rparr>],
       loading = False, error = None\<rparr>)) = Some ''Network timeout''
   \<and> error (fst (generateDomains (Some (client_throwing NotAnError))
      \<lparr>description = ''shop'', domains = [\<lparr>name = ''old'', extensions = [''.com'']\<rparr>],
       loading = False, error = None\<rparr>))
     = Some ''An error occurred while generating domain names''"
proof -
  let ?s = "\<lparr>description = ''shop'', domains = [\<lparr>name = ''old'', extensions = [''.com'']\<rparr>],
      loading = False, error = None\<rparr>"
  have d: "\<exists>c\<in>set (description ?s). \<not> isWhiteSpace c"
    by (simp add: isWhiteSpace_def)
  have f1: "(Some (client_throwing (Error ''Network timeout'')) = None
           \<and> Error ''Network timeout''
               = Error ''API key not configured. Please add your Gemini API key to continue.'')
         \<or> (\<exists>generateContent.
               Some (client_throwing (Error ''Network timeout'')) = Some generateContent
               \<and> generateContent (prompt_of (description ?s)) = Inl (Error ''Network timeout''))"
    by (simp add: client_throwing_def)
  have f2: "(Some (client_throwing NotAnError) = None
           \<and> NotAnError
               = Error ''API key not configured. Please add your Gemini API key to continue.'')
         \<or> (\<exists>generateContent. Some (client_throwing NotAnError) = Some generateContent
               \<and> generateContent (prompt_of (description ?s)) = Inl NotAnError)"
    by (simp add: client_throwing_def)
  show ?thesis
    using failure_resets_suggestions [OF d f1] failure_resets_suggestions [OF d f2]
    by simp
qed

section \<open>The guard and the missing configuration\<close>

text \<open>
  Claim C5. Triggering generation while the description is empty or consists of white
  space only does nothing: no prompt is sent, and the state, with its suggestion list
  and its error message, is the one before.
\<close>

theorem blank_description_noop:
  assumes "\<forall>c\<in>set (description s). isWhiteSpace c"
  shows "generateDomains genAI s = (s, [])"
  using assms by (simp add: generateDomains_def trim_eq_Nil_iff)

theorem blank_description_noop_scenario:
  "list_all isWhiteSpace (description
        \<lparr>description = ''  \<newline> '', domains = [\<lparr>name = ''old'', extensions = [''.com'']\<rparr>],
         loading = False, error = Some ''earlier failure''\<rparr>)
   \<and> generateDomains (Some (client_returning ''Fresh''))
        \<lparr>description = ''  \<newline> '', domains = [\<lparr>name = ''old'', extensions = [''.com'']\<rparr>],
         loading = False, error = Some ''earlier failure''\<rparr>
     = (\<lparr>description = ''  \<newline> '', domains = [\<lparr>name = ''old'', extensions = [''.com'']\<rparr>],
         loading = False, error = Some ''earlier failure''\<rparr>, [])"
proof -
  have d: "\<forall>c\<in>set (description
        \<lparr>description = ''  \<newline> '', domains = [\<lparr>name = ''old'', extensions = [''.com'']\<rparr>],
         loading = False, error = Some ''earlier failure''\<rparr>). isWhiteSpace c"
    by (simp add: isWhiteSpace_def)
  show ?thesis
    using d blank_description_noop [OF d, of "Some (client_returning ''Fresh'')"]
    by (simp add: list_all_iff)
qed

text \<open>
  Claim C6. Without a configured client no prompt is ever sent; and when the description
  is not blank, the attempt ends with the configuration message as error message and
  with the empty suggestion list.
\<close>

theorem unconfigured_backend:
  "snd (generateDomains None s) = []
   \<and> ((\<exists>c\<in>set (description s). \<not> isWhiteSpace c) \<longrightarrow>
        fst (generateDomains None s) =
          s\<lparr>loading := False,
            error := Some ''API key not configured. Please add your Gemini API key to continue.'',
            domains := []\<rparr>)"
  by (simp add: generateDomains_def try_body_def trim_eq_Nil_iff)

theorem unconfigured_backend_scenario:
  "(\<exists>c\<in>set (description
        \<lparr>description = ''shop'', domains = [\<lparr>name = ''old'', extensions = [''.com'']\<rparr>],
         loading = False, error = None\<rparr>). \<not> isWhiteSpace c)
   \<and> generateDomains None
        \<lparr>description = ''shop'', domains = [\<lparr>name = ''old'', extensions = [''.com'']\<rparr>],
         loading = False, error = None\<rparr>
     = (\<lparr>description = ''shop'', domains = [], loading = False,
         error = Some ''API key not configured. Please add your Gemini API key to continue.''\<rparr>,
        [])"
proof -
  have d: "\<exists>c\<in>set (description
        \<lparr>description = ''shop'', domains = [\<lparr>name = ''old'', extensions = [''.com'']\<rparr>],
         loading = False, error = None\<rparr>). \<not> isWhiteSpace c"
    by (simp add: isWhiteSpace_def)
  show ?thesis
    using d unconfigured_backend
      [of "\<lparr>description = ''shop'', domains = [\<lparr>name = ''old'', extensions = [''.com'']\<rparr>],
         loading = False, error = None\<rparr>"]
    by (simp add: prod_eq_iff)
qed

section \<open>A response without usable lines\<close>

text \<open>
  Claim C7. A response all of whose lines are empty or white space only is a success:
  the suggestion list is empty and no error message is set.
\<close>

theorem no_usable_lines_is_success:
  assumes "\<exists>c\<in>set (description s). \<not> isWhiteSpace c"
    and "generateContent (prompt_of (description s)) = Inr text"
    and "\<forall>line\<in>set (split_str (CHR 0x0A) text). \<forall>c\<in>set line. isWhiteSpace c"
  shows "fst (generateDomains (Some generateContent) s) =
           s\<lparr>loading := False, error := None, domains := []\<rparr>"
proof -
  have "filter (\<lambda>line. \<exists>c\<in>set line. \<not> isWhiteSpace c) (split_str (CHR 0x0A) text) = []"
    using assms(3) by (simp add: filter_empty_conv)
  then show ?thesis
    using generateDomains_response [of s generateContent "text"] assms(1,2) by simp
qed

theorem no_usable_lines_is_success_scenario:
  "list_all (list_all isWhiteSpace) (split_str (CHR 0x0A) '' \<newline>\<newline>  '')
   \<and> fst (generateDomains (Some (client_returning '' \<newline>\<newline>  ''))
        \<lparr>description = ''shop'', domains = [\<lparr>name = ''old'', extensions = [''.com'']\<rparr>],
         loading = False, error = Some ''earlier failure''\<rparr>)
     = \<lparr>description = ''shop'', domains = [], loading = False, error = None\<rparr>"
proof -
  have d: "\<exists>c\<in>set (description
        \<lparr>description = ''shop'', domains = [\<lparr>name = ''old'', extensions = [''.com'']\<rparr>],
         loading = False, error = Some ''earlier failure''\<rparr>). \<not> isWhiteSpace c"
    by (simp add: isWhiteSpace_def)
  have r: "client_returning '' \<newline>\<newline>  ''
             (prompt_of (description
               \<lparr>description = ''shop'', domains = [\<lparr>name = ''old'', extensions = [''.com'']\<rparr>],
                loading = False, error = Some ''earlier failure''\<rparr>))
           = Inr '' \<newline>\<newline>  ''"
    by (simp add: client_returning_def)
  have b: "\<forall>line\<in>set (split_str (CHR 0x0A) '' \<newline>\<newline>  ''). \<forall>c\<in>set line. isWhiteSpace c"
    by (simp add: isWhiteSpace_def)
  show ?thesis
    using b no_usable_lines_is_success
      [of "\<lparr>description = ''shop'', domains = [\<lparr>name = ''old'', extensions = [''.com'']\<rparr>],
           loading = False, error = Some ''earlier failure''\<rparr>"
          "client_returning '' \<newline>\<newline>  ''" "'' \<newline>\<newline>  ''", OF d r b]
    by (simp add: list_all_iff)
qed

section \<open>Distinct links\<close>

text \<open>
  Claim C8. The link is a function of name and extension, so equal inputs give equal
  links; and it is injective on the pairs the page builds links for. The only call of
  \<open>getGoDaddyUrl\<close> passes a suggestion's name and one of its \<open>extensions\<close>, which are
  always the six literals \<open>.com .io .co .net .org .ai\<close>. For such extensions two links
  are equal exactly when both the names and the extensions are equal: none of the six
  is the end of another, so the link determines where the name stops.
\<close>

theorem url_injective_fixed_extensions:
  assumes "e1 \<in> set [''.com'', ''.io'', ''.co'', ''.net'', ''.org'', ''.ai'']"
    and "e2 \<in> set [''.com'', ''.io'', ''.co'', ''.net'', ''.org'', ''.ai'']"
  shows "getGoDaddyUrl n1 e1 = getGoDaddyUrl n2 e2 \<longleftrightarrow> n1 = n2 \<and> e1 = e2"
proof
  assume "getGoDaddyUrl n1 e1 = getGoDaddyUrl n2 e2"
  then have "n1 @ e1 = n2 @ e2"
    by (simp add: getGoDaddyUrl_def)
  then have "rev e1 @ rev n1 = rev e2 @ rev n2"
    by (metis rev_append)
  then show "n1 = n2 \<and> e1 = e2"
    using assms by auto
next
  assume "n1 = n2 \<and> e1 = e2"
  then show "getGoDaddyUrl n1 e1 = getGoDaddyUrl n2 e2"
    by simp
qed

theorem url_injective_fixed_extensions_scenario:
  "getGoDaddyUrl ''shop'' ''.co'' \<noteq> getGoDaddyUrl ''shop'' ''.com''
   \<and> getGoDaddyUrl ''shop.co'' ''.io'' \<noteq> getGoDaddyUrl ''shop'' ''.co''"
proof -
  have a: "''.co'' \<in> set [''.com'', ''.io'', ''.co'', ''.net'', ''.org'', ''.ai'']" by simp
  have b: "''.com'' \<in> set [''.com'', ''.io'', ''.co'', ''.net'', ''.org'', ''.ai'']" by simp
  have c: "''.io'' \<in> set [''.com'', ''.io'', ''.co'', ''.net'', ''.org'', ''.ai'']" by simp
  show ?thesis
    using url_injective_fixed_extensions [OF a b, of "''shop''" "''shop''"]
      url_injective_fixed_extensions [OF c a, of "''shop.co''" "''shop''"]
    by simp
qed

section \<open>Lower-casing\<close>

text \<open>
  Claim C9. Lower-casing is idempotent: lower-casing the names of a suggestion list
  again changes none of them, and a surviving line without any upper-case letter
  yields, at its position, a name identical to the line.
\<close>

theorem lowercase_idempotent:
  assumes "\<exists>c\<in>set (description s). \<not> isWhiteSpace c"
    and "generateContent (prompt_of (description s)) = Inr text"
  shows "map toLowerCase (map name (domains (fst (generateDomains (Some generateContent) s))))
           = map name (domains (fst (generateDomains (Some generateContent) s)))
         \<and> (\<forall>i < length (filter (\<lambda>line. \<exists>c\<in>set line. \<not> isWhiteSpace c) (split_str (CHR 0x0A) text)).
              (\<forall>c\<in>set (filter (\<lambda>line. \<exists>c\<in>set line. \<not> isWhiteSpace c) (split_str (CHR 0x0A) text) ! i).
                 \<not> isUpperCase c) \<longrightarrow>
              map name (domains (fst (generateDomains (Some generateContent) s))) ! i
                = filter (\<lambda>line. \<exists>c\<in>set line. \<not> isWhiteSpace c) (split_str (CHR 0x0A) text) ! i)"
proof -
  let ?kept = "filter (\<lambda>line. \<exists>c\<in>set line. \<not> isWhiteSpace c) (split_str (CHR 0x0A) text)"
  have names: "map name (domains (fst (generateDomains (Some generateContent) s)))
                 = map toLowerCase ?kept"
    using generateDomains_response [of s generateContent "text"] assms by (simp add: comp_def)
  have "map toLowerCase (map toLowerCase ?kept) = map toLowerCase ?kept"
    by (simp add: toLowerCase_idem)
  moreover have "map toLowerCase ?kept ! i = ?kept ! i"
    if "i < length ?kept" and "\<forall>c\<in>set (?kept ! i). \<not> isUpperCase c" for i
    using that by (simp add: toLowerCase_fixed)
  ultimately show ?thesis
    by (simp only: names) blast
qed

text \<open>
  A response whose first line is already lower-case and whose second line is not.
\<close>

theorem lowercase_idempotent_scenario:
  "\<not> list_ex isUpperCase ''nimbus''
   \<and> map name (domains (fst (generateDomains (Some (client_returning ''nimbus\<newline>Cloud Nine''))
        (initial_state\<lparr>description := ''weather app''\<rparr>)))) ! 0
     = ''nimbus''
   \<and> map toLowerCase (map name (domains (fst (generateDomains
        (Some (client_returning ''nimbus\<newline>Cloud Nine''))
        (initial_state\<lparr>description := ''weather app''\<rparr>)))))
     = map name (domains (fst (generateDomains (Some (client_returning ''nimbus\<newline>Cloud Nine''))
        (initial_state\<lparr>description := ''weather app''\<rparr>))))"
proof -
  have d: "\<exists>c\<in>set (description (initial_state\<lparr>description := ''weather app''\<rparr>)). \<not> isWhiteSpace c"
    by (simp add: isWhiteSpace_def)
  have r: "client_returning ''nimbus\<newline>Cloud Nine''
             (prompt_of (description (initial_state\<lparr>description := ''weather app''\<rparr>)))
           = Inr ''nimbus\<newline>Cloud Nine''"
    by (simp add: client_returning_def)
  have l: "\<forall>c\<in>set ''nimbus''. \<not> isUpperCase c"
    by (simp add: isUpperCase_def)
  have k: "filter (\<lambda>line. \<exists>c\<in>set line. \<not> isWhiteSpace c)
             (split_str (CHR 0x0A) ''nimbus\<newline>Cloud Nine'') = [''nimbus'', ''Cloud Nine'']"
    by (simp add: isWhiteSpace_def)
  note t = lowercase_idempotent
      [of "initial_state\<lparr>description := ''weather app''\<rparr>"
          "client_returning ''nimbus\<newline>Cloud Nine''" "''nimbus\<newline>Cloud Nine''", OF d r,
       unfolded k]
  have "map name (domains (fst (generateDomains (Some (client_returning ''nimbus\<newline>Cloud Nine''))
        (initial_state\<lparr>description := ''weather app''\<rparr>)))) ! 0 = ''nimbus''"
    using t l by force
  with t l show ?thesis
    by (simp add: list_ex_iff)
qed

text \<open>
  Claim C10. A line of the response that contains a non-white-space character is kept
  and stored untrimmed: its lower-cased form is among the names, has the length of the
  line and has the line's white space at the same places; so if trimming would change
  the line, it would change the stored name too. Only the test that keeps or drops a
  line trims. The text is cut at line feeds only, so a carriage return before a line
  feed stays at the end of the name.
\<close>

theorem surviving_lines_not_trimmed:
  assumes "\<exists>c\<in>set (description s). \<not> isWhiteSpace c"
    and "generateContent (prompt_of (description s)) = Inr text"
    and "line \<in> set (split_str (CHR 0x0A) text)"
    and "\<exists>c\<in>set line. \<not> isWhiteSpace c"
  shows "toLowerCase line \<in> set (map name (domains (fst (generateDomains (Some generateContent) s))))
         \<and> length (toLowerCase line) = length line
         \<and> (\<forall>i<length line. isWhiteSpace (line ! i) \<longrightarrow> toLowerCase line ! i = line ! i)
         \<and> (trim line \<noteq> line \<longrightarrow> trim (toLowerCase line) \<noteq> toLowerCase line)"
proof (intro conjI allI impI)
  have "map name (domains (fst (generateDomains (Some generateContent) s)))
          = map toLowerCase
              (filter (\<lambda>line. \<exists>c\<in>set line. \<not> isWhiteSpace c) (split_str (CHR 0x0A) text))"
    using generateDomains_response [of s generateContent "text"] assms(1,2) by (simp add: comp_def)
  then show "toLowerCase line \<in> set (map name (domains (fst (generateDomains (Some generateContent) s))))"
    using assms(3,4) by simp
next
  show "length (toLowerCase line) = length line"
    by (rule length_toLowerCase)
next
  fix i assume "i < length line" and "isWhiteSpace (line ! i)"
  then show "toLowerCase line ! i = line ! i"
    by (simp add: toLowerCase_def toLowerCase_char_whitespace)
next
  assume "trim line \<noteq> line"
  then have "length (trim line) \<noteq> length line"
    using trim_same_length by blast
  then have "length (toLowerCase (trim line)) \<noteq> length (toLowerCase line)"
    by (simp add: length_toLowerCase)
  then show "trim (toLowerCase line) \<noteq> toLowerCase line"
    by (metis trim_toLowerCase)
qed

text \<open>
  A response with a padded first line and a CRLF line end: the names keep the blanks
  and the carriage return.
\<close>

theorem surviving_lines_not_trimmed_scenario:
  "'' foo '' \<in> set (map name (domains (fst (generateDomains
      (Some (client_returning ('' Foo \<newline>Bar'' @ [CHR 0x0D, CHR 0x0A] @ ''Baz'')))
      (initial_state\<lparr>description := ''shop''\<rparr>)))))
   \<and> ''bar'' @ [CHR 0x0D] \<in> set (map name (domains (fst (generateDomains
      (Some (client_returning ('' Foo \<newline>Bar'' @ [CHR 0x0D, CHR 0x0A] @ ''Baz'')))
      (initial_state\<lparr>description := ''shop''\<rparr>)))))
   \<and> trim (''bar'' @ [CHR 0x0D]) \<noteq> ''bar'' @ [CHR 0x0D]"
proof -
  let ?text = "'' Foo \<newline>Bar'' @ [CHR 0x0D, CHR 0x0A] @ ''Baz''"
  let ?s = "initial_state\<lparr>description := ''shop''\<rparr>"
  have d: "\<exists>c\<in>set (description ?s). \<not> isWhiteSpace c"
    by (simp add: isWhiteSpace_def)
  have r: "client_returning ?text (prompt_of (description ?s)) = Inr ?text"
    by (simp add: client_returning_def)
  have m1: "'' Foo '' \<in> set (split_str (CHR 0x0A) ?text)"
    by simp
  have w1: "\<exists>c\<in>set '' Foo ''. \<not> isWhiteSpace c"
    by (simp add: isWhiteSpace_def)
  have m2: "''Bar'' @ [CHR 0x0D] \<in> set (split_str (CHR 0x0A) ?text)"
    by simp
  have w2: "\<exists>c\<in>set (''Bar'' @ [CHR 0x0D]). \<not> isWhiteSpace c"
    by (simp add: isWhiteSpace_def)
  have l1: "toLowerCase '' Foo '' = '' foo ''"
    by (simp add: toLowerCase_def toLowerCase_char_def isUpperCase_def char_of_def bit_Suc_0_iff)
  have l2: "toLowerCase (''Bar'' @ [CHR 0x0D]) = ''bar'' @ [CHR 0x0D]"
    by (simp add: toLowerCase_def toLowerCase_char_def isUpperCase_def char_of_def bit_Suc_0_iff)
  have t2: "trim (''Bar'' @ [CHR 0x0D]) \<noteq> ''Bar'' @ [CHR 0x0D]"
    by (simp add: trim_def isWhiteSpace_def)
  show ?thesis
    using surviving_lines_not_trimmed
        [of ?s "client_returning ?text" ?text "'' Foo ''", OF d r m1 w1]
      surviving_lines_not_trimmed
        [of ?s "client_returning ?text" ?text "''Bar'' @ [CHR 0x0D]", OF d r m2 w2]
      t2
    unfolding l1 l2 by blast
qed

end
